theory Spec2Isabelle
  imports Main
begin

section \<open>Data model of \<open>frontend/lib/hooks/use-auth.ts\<close>\<close>

text \<open>
  The session provider hands the hook a pair \<open>{ data: session, status }\<close>. The status is
  one of three string literals; the session object is \<open>null\<close> or carries an optional
  \<open>accessToken\<close>.
\<close>

datatype session_status = Loading | Authenticated | Unauthenticated

record session =
  accessToken :: "string option"

text \<open>
  Modelled from the spec: \<open>ApiError\<close> is declared in \<open>@/lib/api\<close>, which is not among the
  sources; the spec describes it as a typed error carrying an HTTP status code and a
  message. A value of TypeScript type \<open>unknown\<close> that the code tests with
  \<open>instanceof ApiError\<close> is an \<open>ApiError\<close>, some other thrown value, or \<open>null\<close>.
\<close>

datatype js_unknown =
    ApiError (http_status: int) (error_message: string)
  | OtherError string
  | Null

text \<open>
  The query layer reports one of three states; \<open>isPending\<close> and \<open>isSuccess\<close> are its
  tests for the first and the last. The profile type \<open>UserProfile\<close> is declared outside
  the sources and is a type parameter here; \<open>None\<close> is JavaScript's \<open>undefined\<close>.
\<close>

datatype fetch_status = FetchPending | FetchError | FetchSuccess

record 'p query_result =
  fetchStatus :: fetch_status
  data :: "'p option"
  error :: js_unknown

definition isPending :: "'p query_result \<Rightarrow> bool" where
  "isPending q = (fetchStatus q = FetchPending)"

definition isSuccess :: "'p query_result \<Rightarrow> bool" where
  "isSuccess q = (fetchStatus q = FetchSuccess)"

text \<open>The options object that \<open>useAuth\<close> passes to \<open>useQuery\<close> (lines 34 to 42).\<close>

record query_options =
  queryKey :: "string list"
  enabled :: bool
  retry :: bool
  staleTime :: nat
  refetchOnWindowFocus :: bool

text \<open>The object returned by \<open>useAuth\<close> (lines 67 to 75).\<close>

record 'p auth_view =
  user :: "'p option"
  isAuthenticated :: bool
  isLoading :: bool
  view_error :: js_unknown
  view_session :: "session option"
  sessionStatus :: session_status

section \<open>The body of \<open>useAuth\<close>\<close>

text \<open>
  \<open>hasToken = !!session?.accessToken\<close>: JavaScript truthiness of an optional string. A
  \<open>null\<close> session, a missing token and the empty string are all falsy.
\<close>

definition hasToken :: "session option \<Rightarrow> bool" where
  "hasToken s =
     (case s of
        None \<Rightarrow> False
      | Some se \<Rightarrow> (case accessToken se of None \<Rightarrow> False | Some t \<Rightarrow> t \<noteq> []))"

text \<open>
  Lines 26 to 28: the token handed to \<open>setAccessToken\<close> during the render, if any.
\<close>

definition setAccessToken_call :: "session option \<Rightarrow> string option" where
  "setAccessToken_call s =
     (if hasToken s then (case s of None \<Rightarrow> None | Some se \<Rightarrow> accessToken se) else None)"

definition userQuery_options :: "session option \<Rightarrow> session_status \<Rightarrow> query_options" where
  "userQuery_options s st =
     \<lparr> queryKey = [''auth-user''],
       enabled = (st = Authenticated \<and> hasToken s),
       retry = False,
       staleTime = 5 * 60 * 1000,
       refetchOnWindowFocus = False \<rparr>"

text \<open>
  Lines 63 to 75. \<open>!!userQuery.data\<close> is the truthiness of an object or \<open>undefined\<close>.
\<close>

definition useAuth :: "session option \<Rightarrow> session_status \<Rightarrow> 'p query_result \<Rightarrow> 'p auth_view" where
  "useAuth s st q =
     \<lparr> user = data q,
       isAuthenticated = (isSuccess q \<and> data q \<noteq> None),
       isLoading = (st = Loading \<or> (st = Authenticated \<and> isPending q)),
       view_error = error q,
       view_session = s,
       sessionStatus = st \<rparr>"

section \<open>The reconciliation effect of \<open>useAuth\<close>\<close>

text \<open>
  Lines 44 to 61. The state of one hook instance that the effect reads and writes is the
  ref \<open>signingOut\<close>. React keeps the dependency array of the last commit and runs the
  effect again only when one of \<open>[userQuery.error, status, hasToken]\<close> has changed. It
  compares with \<open>Object.is\<close>: \<open>null\<close> is \<open>null\<close>, and an error object is the same
  dependency only if it is the same object, whatever its status and message. The state
  therefore holds the error the query layer reports (\<open>queryError\<close>) together with a
  number that tells the error objects apart (\<open>errorRef\<close>), and whether the query has been
  enabled in a render so far (\<open>fetchStarted\<close>). Two counters are added to observe the
  effect: \<open>signOutCalls\<close> counts the calls of \<open>signOut\<close> issued so far, \<open>inFlight\<close> the
  promises of such calls that have not settled.
\<close>

record hook_state =
  signingOut :: bool
  lastDeps :: "(nat \<times> session_status \<times> bool) option"
  queryError :: js_unknown
  errorRef :: nat
  fetchStarted :: bool
  signOutCalls :: nat
  inFlight :: nat

definition mount :: hook_state where
  "mount =
     \<lparr> signingOut = False, lastDeps = None, queryError = Null, errorRef = 0,
       fetchStarted = False, signOutCalls = 0, inFlight = 0 \<rparr>"

text \<open>
  \<open>userQuery.error\<close> as a dependency: 0 for \<open>null\<close>, the number of the object otherwise
  (objects are numbered from 1).
\<close>

definition error_dep :: "hook_state \<Rightarrow> nat" where
  "error_dep s = (if queryError s = Null then 0 else errorRef s)"

text \<open>\<open>userQuery.error instanceof ApiError && userQuery.error.status === 401\<close>\<close>

definition is_unauthorized :: "js_unknown \<Rightarrow> bool" where
  "is_unauthorized e = (case e of ApiError c m \<Rightarrow> c = 401 | _ \<Rightarrow> False)"

text \<open>
  \<open>signingOut.current = true; signOut({ redirect: false }).then(...)\<close>: the flag is set and
  one call is issued, whose promise is pending.
\<close>

definition issue_signOut :: "hook_state \<Rightarrow> hook_state" where
  "issue_signOut s =
     s\<lparr> signingOut := True, signOutCalls := Suc (signOutCalls s), inFlight := Suc (inFlight s) \<rparr>"

definition reconcile_effect :: "js_unknown \<Rightarrow> session_status \<Rightarrow> bool \<Rightarrow> hook_state \<Rightarrow> hook_state" where
  "reconcile_effect err st tok s =
     (if signingOut s then s
      else if is_unauthorized err then issue_signOut s
      else if st = Authenticated \<and> \<not> tok then issue_signOut s
      else s)"

text \<open>
  What can happen to a mounted hook.

  \<^item> A render with the current session and status, followed by the commit: the options
    of line 38 reach the query layer, and the effect runs if a dependency has changed
    since the last commit (always after the first render).
  \<^item> The query layer stores the outcome of a profile fetch: \<open>null\<close> after a success, a
    new error object after a failure.
  \<^item> The settlement of a pending \<open>signOut\<close> promise. The callback given to \<open>then\<close> has one
    argument, the handler for fulfilment: it clears the flag. Nothing is registered for
    rejection, so a rejected promise leaves the flag as it is. A settlement with no
    promise pending cannot occur and leaves the state alone.
\<close>

text \<open>
  Modelled from the spec: the query layer behind \<open>useQuery\<close> is not among the sources.
  By the spec it fetches only for an enabled query, and while fetching is skipped the
  record sits in a perpetual not fetched state. So the outcome of a fetch is stored only
  once a render has enabled the query; until then \<open>userQuery.error\<close> stays the object it
  was at mount. Before the first render the event stands for what the query cache
  already holds at mount.
\<close>

datatype event =
    Render "session option" session_status
  | FetchSettled js_unknown
  | SignOutFulfilled
  | SignOutRejected

fun step :: "hook_state \<Rightarrow> event \<Rightarrow> hook_state" where
  "step s (Render se st) =
     (let s' = s\<lparr> fetchStarted := (fetchStarted s \<or> enabled (userQuery_options se st)) \<rparr>
      in if lastDeps s = Some (error_dep s, st, hasToken se) then s'
         else reconcile_effect (queryError s) st (hasToken se)
                (s'\<lparr> lastDeps := Some (error_dep s, st, hasToken se) \<rparr>))"
| "step s (FetchSettled e) =
     (if fetchStarted s \<or> lastDeps s = None
      then s\<lparr> queryError := e, errorRef := Suc (errorRef s) \<rparr>
      else s)"
| "step s SignOutFulfilled =
     (if inFlight s = 0 then s else s\<lparr> signingOut := False, inFlight := inFlight s - 1 \<rparr>)"
| "step s SignOutRejected =
     (if inFlight s = 0 then s else s\<lparr> inFlight := inFlight s - 1 \<rparr>)"

definition run :: "event list \<Rightarrow> hook_state" where
  "run evs = foldl step mount evs"

text \<open>
  Traces of a session that stays authenticated without a token: every render sees the
  status \<open>authenticated\<close> and no token.
\<close>

fun is_render :: "event \<Rightarrow> bool" where
  "is_render (Render se st) = True"
| "is_render (FetchSettled e) = False"
| "is_render SignOutFulfilled = False"
| "is_render SignOutRejected = False"

fun tokenless_render :: "event \<Rightarrow> bool" where
  "tokenless_render (Render se st) = (st = Authenticated \<and> \<not> hasToken se)"
| "tokenless_render (FetchSettled e) = True"
| "tokenless_render SignOutFulfilled = True"
| "tokenless_render SignOutRejected = True"

definition stays_tokenless :: "event list \<Rightarrow> bool" where
  "stays_tokenless evs = list_all tokenless_render evs"

definition has_render :: "event list \<Rightarrow> bool" where
  "has_render evs = list_ex is_render evs"

text \<open>
  The single-flight property as a predicate on states: at most one promise is pending,
  and while one is pending the flag is set.
\<close>

definition guard_inv :: "hook_state \<Rightarrow> bool" where
  "guard_inv s =
     (inFlight s \<le> 1 \<and> (inFlight s = 1 \<longrightarrow> signingOut s) \<and> inFlight s \<le> signOutCalls s)"

text \<open>
  The two shapes of a state on a trace without a token: before the first render nothing
  has been issued; after it one call has been issued, the query has never been enabled
  and the dependencies are those of the last commit.
\<close>

definition not_rendered :: "hook_state \<Rightarrow> bool" where
  "not_rendered s =
     (lastDeps s = None \<and> \<not> signingOut s \<and> \<not> fetchStarted s \<and> signOutCalls s = 0
      \<and> inFlight s = 0)"

definition settled_once :: "hook_state \<Rightarrow> bool" where
  "settled_once s =
     (lastDeps s = Some (error_dep s, Authenticated, False) \<and> \<not> fetchStarted s
      \<and> signOutCalls s = 1)"

section \<open>The invite page\<close>

text \<open>Lines 90 to 97.\<close>

definition getErrorMessage :: "js_unknown \<Rightarrow> string" where
  "getErrorMessage e =
     (case e of
        ApiError c m \<Rightarrow>
          (if c = 404 then ''This invite link is invalid or has expired.''
           else if c = 403 then ''This invite was sent to a different email address.''
           else if c = 409 then ''You are already in a family.''
           else ''Something went wrong. Please try again.'')
      | _ \<Rightarrow> ''Something went wrong. Please try again.'')"

text \<open>
  \<open>encodeURIComponent\<close> is a built-in of the language. A string is held here as the bytes
  of its UTF-8 form, which is what the built-in encodes: the unreserved ASCII characters
  (letters, digits and \<open>- _ . ! ~ * ' ( )\<close>) stay, every other byte becomes \<open>%\<close> and two
  upper-case hexadecimal digits. The token comes from \<open>URLSearchParams\<close>, whose strings
  are well-formed, so the built-in's \<open>URIError\<close> for a lone surrogate does not arise.
\<close>

definition uri_unreserved :: "char \<Rightarrow> bool" where
  "uri_unreserved c =
     (c \<in> set (''ABCDEFGHIJKLMNOPQRSTUVWXYZabcdefghijklmnopqrstuvwxyz0123456789-_.!~*()''
               @ [CHR 0x27]))"

definition hex_digit :: "nat \<Rightarrow> char" where
  "hex_digit n = ''0123456789ABCDEF'' ! (n mod 16)"

definition percent_encode_byte :: "char \<Rightarrow> string" where
  "percent_encode_byte c =
     [CHR ''%'', hex_digit (of_char c div 16), hex_digit (of_char c mod 16)]"

definition encodeURIComponent :: "string \<Rightarrow> string" where
  "encodeURIComponent s =
     concat (map (\<lambda>c. if uri_unreserved c then [c] else percent_encode_byte c) s)"








text \<open>
  Modelled from the spec: \<open>useJoinFamilyByToken\<close> is declared in \<open>@/lib/hooks/use-family\<close>,
  which is not among the sources. The page calls \<open>mutateAsync\<close> of the object it returns,
  a single asynchronous join call that resolves with the joined family or rejects with
  an error, and reads \<open>isPending\<close>, \<open>isSuccess\<close>, \<open>isError\<close> and \<open>error\<close> from it. The
  object is an input of the page here: idle, in flight, succeeded, or failed with the
  error the call rejected with.
\<close>

record join_result =
  family_name :: string

datatype mutation_status = MutIdle | MutPending | MutSuccess | MutError

record mutation =
  mutStatus :: mutation_status
  mutError :: js_unknown

text \<open>What the page does to the outside: router calls and notifications.\<close>

datatype page_action = RouterReplace string | RouterPush string | ToastSuccess string

text \<open>
  Lines 106 to 112. \<open>searchParams.get('token')\<close> is a string or \<open>null\<close>; \<open>!token\<close> holds
  for \<open>null\<close> and for the empty string.
\<close>

definition InviteContent_effect :: "string option \<Rightarrow> session_status \<Rightarrow> page_action list" where
  "InviteContent_effect token st =
     (case token of
        None \<Rightarrow> [RouterReplace ''/dashboard/family'']
      | Some t \<Rightarrow>
          (if t = [] then [RouterReplace ''/dashboard/family'']
           else if st = Unauthenticated then
             [RouterReplace (''/login?callbackUrl='' @ encodeURIComponent (''/invite?token='' @ t))]
           else []))"

text \<open>
  Lines 126 to 134, from the settlement of the join call on: a notification and a
  navigation after success, nothing after a rejection, which the \<open>catch\<close> swallows.
\<close>

definition handleAccept :: "js_unknown + join_result \<Rightarrow> page_action list" where
  "handleAccept r =
     (case r of
        Inr j \<Rightarrow> [ToastSuccess (''Joined '' @ family_name j @ ''!''), RouterPush ''/dashboard/family'']
      | Inl e \<Rightarrow> [])"

text \<open>
  Lines 114 to 163: what \<open>InviteContent\<close> returns. Of the card, the model keeps the
  error paragraph (present only when the mutation is in error), whether the button is
  disabled, and whether it shows the spinner.
\<close>

datatype invite_view =
    RenderNull
  | LoadingSpinner
  | InviteCard (shown_error: "string option") (accept_disabled: bool) (accept_spinner: bool)

definition InviteContent :: "string option \<Rightarrow> session_status \<Rightarrow> mutation \<Rightarrow> invite_view" where
  "InviteContent token st m =
     (if token = None \<or> token = Some [] then RenderNull
      else if st = Loading \<or> st = Unauthenticated then LoadingSpinner
      else InviteCard
             (if mutStatus m = MutError then Some (getErrorMessage (mutError m)) else None)
             (mutStatus m = MutPending \<or> mutStatus m = MutSuccess)
             (mutStatus m = MutPending))"

section \<open>Facts about the effect and its traces\<close>

lemma run_Nil: "run [] = mount"
  by (simp add: run_def)

lemma run_snoc: "run (evs @ [ev]) = step (run evs) ev"
  by (simp add: run_def)

lemma guard_inv_mount: "guard_inv mount"
  by (simp add: guard_inv_def mount_def)

lemma guard_inv_effect: "guard_inv s \<Longrightarrow> guard_inv (reconcile_effect e st h s)"
  by (auto simp add: guard_inv_def reconcile_effect_def issue_signOut_def)

lemma guard_inv_step: "guard_inv s \<Longrightarrow> guard_inv (step s ev)"
proof (cases ev)
  case (Render se st)
  assume inv: "guard_inv s"
  have a: "guard_inv (s\<lparr> fetchStarted := b \<rparr>)" for b
    using inv by (simp add: guard_inv_def)
  have b: "guard_inv (s\<lparr> fetchStarted := b, lastDeps := d \<rparr>)" for b d
    using inv by (simp add: guard_inv_def)
  show ?thesis using Render a b by (simp add: Let_def guard_inv_effect)
next
  case (FetchSettled e)
  assume "guard_inv s"
  then show ?thesis using FetchSettled by (simp add: guard_inv_def)
next
  case SignOutFulfilled
  assume "guard_inv s"
  then show ?thesis using SignOutFulfilled by (auto simp add: guard_inv_def)
next
  case SignOutRejected
  assume "guard_inv s"
  then show ?thesis using SignOutRejected by (auto simp add: guard_inv_def)
qed

lemma guard_inv_foldl: "guard_inv s \<Longrightarrow> guard_inv (foldl step s evs)"
  by (induction evs arbitrary: s) (simp_all add: guard_inv_step)

lemma guard_inv_run: "guard_inv (run evs)"
  by (simp add: run_def guard_inv_foldl guard_inv_mount)

text \<open>
  Without a token the query is never enabled, so after the first commit no event changes
  a dependency: the first commit issues the one call and no later event issues another.
\<close>

lemma first_tokenless_render:
  assumes "not_rendered s" and "\<not> hasToken se"
  shows "settled_once (step s (Render se Authenticated))"
  using assms
  by (auto simp add: not_rendered_def settled_once_def Let_def userQuery_options_def
      reconcile_effect_def issue_signOut_def error_dep_def)

lemma later_tokenless_render:
  assumes "settled_once s" and "\<not> hasToken se"
  shows "settled_once (step s (Render se Authenticated))"
  using assms
  by (simp add: settled_once_def Let_def userQuery_options_def error_dep_def)

lemma tokenless_run:
  "stays_tokenless evs \<Longrightarrow>
     (if has_render evs then settled_once (run evs) else not_rendered (run evs))"
proof (induction evs rule: rev_induct)
  case Nil
  then show ?case by (simp add: has_render_def run_Nil not_rendered_def mount_def)
next
  case (snoc ev evs)
  then have rest: "stays_tokenless evs" and this_one: "tokenless_render ev"
    by (simp_all add: stays_tokenless_def)
  note ih = snoc.IH [OF rest]
  show ?case
  proof (cases ev)
    case (Render se st)
    with this_one have st: "st = Authenticated" and tok: "\<not> hasToken se" by simp_all
    have "settled_once (step (run evs) (Render se Authenticated))"
    proof (cases "has_render evs")
      case True
      with ih have "settled_once (run evs)" by simp
      then show ?thesis using tok by (rule later_tokenless_render)
    next
      case False
      with ih have "not_rendered (run evs)" by simp
      then show ?thesis using tok by (rule first_tokenless_render)
    qed
    then show ?thesis using Render st by (simp add: run_snoc has_render_def)
  next
    case (FetchSettled e)
    show ?thesis
    proof (cases "has_render evs")
      case True
      with ih have "settled_once (run evs)" by simp
      then show ?thesis using FetchSettled True
        by (simp add: run_snoc has_render_def settled_once_def error_dep_def)
    next
      case False
      with ih have "not_rendered (run evs)" by simp
      then show ?thesis using FetchSettled False
        by (simp add: run_snoc has_render_def not_rendered_def)
    qed
  next
    case SignOutFulfilled
    show ?thesis
    proof (cases "has_render evs")
      case True
      with ih have "settled_once (run evs)" by simp
      then show ?thesis using SignOutFulfilled True
        by (simp add: run_snoc has_render_def settled_once_def error_dep_def)
    next
      case False
      with ih have "not_rendered (run evs)" by simp
      then show ?thesis using SignOutFulfilled False
        by (simp add: run_snoc has_render_def not_rendered_def)
    qed
  next
    case SignOutRejected
    show ?thesis
    proof (cases "has_render evs")
      case True
      with ih have "settled_once (run evs)" by simp
      then show ?thesis using SignOutRejected True
        by (simp add: run_snoc has_render_def settled_once_def error_dep_def)
    next
      case False
      with ih have "not_rendered (run evs)" by simp
      then show ?thesis using SignOutRejected False
        by (simp add: run_snoc has_render_def not_rendered_def)
    qed
  qed
qed

text \<open>
  A second failure of the fetch stores a new error object. Its status and message are
  those of the first, yet the dependency has changed and the effect runs again: two
  calls are issued.
\<close>

lemma fresh_error_object_runs_effect_again:
  "signOutCalls (run
     [Render (Some \<lparr> accessToken = Some ''tok'' \<rparr>) Authenticated,
      FetchSettled (ApiError 401 ''Unauthorized''),
      Render (Some \<lparr> accessToken = Some ''tok'' \<rparr>) Authenticated,
      SignOutFulfilled,
      FetchSettled (ApiError 401 ''Unauthorized''),
      Render (Some \<lparr> accessToken = Some ''tok'' \<rparr>) Authenticated]) = 2"
  by (simp add: run_def mount_def hasToken_def userQuery_options_def Let_def error_dep_def
      reconcile_effect_def issue_signOut_def is_unauthorized_def)

section \<open>Facts about the percent encoding and the reading of a query\<close>





















lemma dropWhile_absent: "c \<notin> set s \<Longrightarrow> dropWhile (\<lambda>x. x \<noteq> c) s = []"
  by (induction s) auto





section \<open>The derived view\<close>

text \<open>
  C1. For every session, session status and fetch state, \<open>isAuthenticated\<close> is true exactly
  when the profile fetch has succeeded and delivered a profile. Hence it is false
  whenever the fetch has not succeeded, whatever the session status, also
  \<open>Authenticated\<close>.
\<close>

theorem isAuthenticated_iff_fetched_profile:
  "isAuthenticated (useAuth s st q) = (fetchStatus q = FetchSuccess \<and> (\<exists>p. data q = Some p))
   \<and> (fetchStatus q \<noteq> FetchSuccess \<longrightarrow> \<not> isAuthenticated (useAuth s Authenticated q))"
  by (simp add: useAuth_def isSuccess_def)

theorem isAuthenticated_iff_fetched_profile_witness:
  "fetchStatus \<lparr> fetchStatus = FetchError, data = None :: nat option, error = ApiError 500 ''boom'' \<rparr>
     \<noteq> FetchSuccess
   \<and> \<not> isAuthenticated
        (useAuth (Some \<lparr> accessToken = Some ''tok'' \<rparr>) Authenticated
           \<lparr> fetchStatus = FetchError, data = None :: nat option, error = ApiError 500 ''boom'' \<rparr>)"
  using isAuthenticated_iff_fetched_profile
    [of "Some \<lparr> accessToken = Some ''tok'' \<rparr>" Authenticated
        "\<lparr> fetchStatus = FetchError, data = None :: nat option, error = ApiError 500 ''boom'' \<rparr>"]
  by simp

text \<open>
  C8. For every session status and fetch state, \<open>isLoading\<close> is true exactly when the
  session status is \<open>Loading\<close>, or it is \<open>Authenticated\<close> and the profile fetch is pending.
\<close>

theorem isLoading_iff:
  "isLoading (useAuth s st q) =
     (st = Loading \<or> (st = Authenticated \<and> fetchStatus q = FetchPending))"
  by (simp add: useAuth_def isPending_def)

text \<open>
  C9, as stated, fails: while the session status is \<open>Loading\<close>, a query result that is
  already successful and holds a profile makes both fields true.
\<close>

theorem isAuthenticated_and_isLoading_counterexample:
  "isAuthenticated (useAuth None Loading
       \<lparr> fetchStatus = FetchSuccess, data = Some (1 :: nat), error = Null \<rparr>)
   \<and> isLoading (useAuth None Loading
       \<lparr> fetchStatus = FetchSuccess, data = Some (1 :: nat), error = Null \<rparr>)"
  by (simp add: useAuth_def isSuccess_def)

text \<open>
  C9, amended. \<open>isAuthenticated\<close> and \<open>isLoading\<close> are both true exactly when the session
  status is \<open>Loading\<close> and the fetch has succeeded with a profile. For every other
  session status, and every fetch state, they are never both true.
\<close>

theorem isAuthenticated_and_isLoading_iff:
  "(isAuthenticated (useAuth s st q) \<and> isLoading (useAuth s st q)) =
     (st = Loading \<and> fetchStatus q = FetchSuccess \<and> (\<exists>p. data q = Some p))
   \<and> (st \<noteq> Loading \<longrightarrow> \<not> (isAuthenticated (useAuth s st q) \<and> isLoading (useAuth s st q)))"
  by (auto simp add: useAuth_def isSuccess_def isPending_def)

theorem isAuthenticated_and_isLoading_iff_witness:
  "Authenticated \<noteq> Loading
   \<and> \<not> (isAuthenticated (useAuth None Authenticated
            \<lparr> fetchStatus = FetchSuccess, data = Some (1 :: nat), error = Null \<rparr>)
        \<and> isLoading (useAuth None Authenticated
            \<lparr> fetchStatus = FetchSuccess, data = Some (1 :: nat), error = Null \<rparr>))"
  using isAuthenticated_and_isLoading_iff
    [of None Authenticated "\<lparr> fetchStatus = FetchSuccess, data = Some (1 :: nat), error = Null \<rparr>"]
  by simp

section \<open>The sign-out guard\<close>

text \<open>
  C2. A sign-out call that is rejected never clears the guard. The hook is mounted for an
  authenticated session without a token and issues a sign-out, which is rejected: the
  flag is still set although nothing is in flight. A token then arrives, the profile
  fetch fails with a 401 error, and the effect runs again: it issues no new call, one
  call in all. Had the first call been fulfilled, the 401 would have issued the second.
\<close>

theorem signOut_rejected_keeps_guard:
  "signingOut (run [Render (Some \<lparr> accessToken = None \<rparr>) Authenticated, SignOutRejected])
   \<and> inFlight (run [Render (Some \<lparr> accessToken = None \<rparr>) Authenticated, SignOutRejected]) = 0
   \<and> signOutCalls (run
        [Render (Some \<lparr> accessToken = None \<rparr>) Authenticated,
         SignOutRejected,
         Render (Some \<lparr> accessToken = Some ''tok'' \<rparr>) Authenticated,
         FetchSettled (ApiError 401 ''Unauthorized''),
         Render (Some \<lparr> accessToken = Some ''tok'' \<rparr>) Authenticated]) = 1
   \<and> signOutCalls (run
        [Render (Some \<lparr> accessToken = None \<rparr>) Authenticated,
         SignOutFulfilled,
         Render (Some \<lparr> accessToken = Some ''tok'' \<rparr>) Authenticated,
         FetchSettled (ApiError 401 ''Unauthorized''),
         Render (Some \<lparr> accessToken = Some ''tok'' \<rparr>) Authenticated]) = 2"
  by (simp add: run_def mount_def hasToken_def userQuery_options_def Let_def error_dep_def
      reconcile_effect_def issue_signOut_def is_unauthorized_def)

text \<open>
  C3, as stated, fails. A run of the effect at mount with the session still loading and
  no fetch error fires no corrective action; and while a sign-out is in flight, a run
  that sees a 401 error issues no further call.
\<close>

theorem reconcile_effect_counterexample:
  "signOutCalls (reconcile_effect Null Loading False mount) = signOutCalls mount
   \<and> inFlight (run [Render (Some \<lparr> accessToken = None \<rparr>) Authenticated]) = 1
   \<and> signOutCalls (reconcile_effect (ApiError 401 ''Unauthorized'') Authenticated True
        (run [Render (Some \<lparr> accessToken = None \<rparr>) Authenticated]))
     = signOutCalls (run [Render (Some \<lparr> accessToken = None \<rparr>) Authenticated])"
  by (simp add: run_def mount_def hasToken_def userQuery_options_def Let_def error_dep_def
      reconcile_effect_def issue_signOut_def is_unauthorized_def)

text \<open>
  C3, amended. A run of the effect issues at most one sign-out. With the guard clear it
  issues one exactly when the fetch failed with a 401 error or the session is
  authenticated without a token, and none otherwise. In every state the hook can reach,
  at most one sign-out is in flight, and while one is in flight a run of the effect
  changes nothing. For a session that stays authenticated without a token exactly one
  sign-out call is issued, whatever happens to that call: the profile query is never
  enabled, no dependency of the effect changes after the first commit, and the effect
  runs once.
\<close>

theorem reconcile_effect_single_flight:
  "(\<not> signingOut s \<longrightarrow>
      signOutCalls (reconcile_effect e st h s) =
        signOutCalls s + (if is_unauthorized e \<or> (st = Authenticated \<and> \<not> h) then 1 else 0))
   \<and> signOutCalls (reconcile_effect e st h s) \<le> signOutCalls s + 1
   \<and> inFlight (run evs) \<le> 1
   \<and> inFlight (reconcile_effect e st h (run evs)) \<le> 1
   \<and> (0 < inFlight (run evs) \<longrightarrow> reconcile_effect e st h (run evs) = run evs)
   \<and> (stays_tokenless evs \<and> has_render evs \<longrightarrow> signOutCalls (run evs) = 1)"
proof -
  have one: "\<not> signingOut s \<longrightarrow>
      signOutCalls (reconcile_effect e st h s) =
        signOutCalls s + (if is_unauthorized e \<or> (st = Authenticated \<and> \<not> h) then 1 else 0)"
    by (auto simp add: reconcile_effect_def issue_signOut_def)
  have most: "signOutCalls (reconcile_effect e st h s) \<le> signOutCalls s + 1"
    by (auto simp add: reconcile_effect_def issue_signOut_def)
  have inv: "guard_inv (run evs)"
    by (rule guard_inv_run)
  then have flight: "inFlight (run evs) \<le> 1"
    by (simp add: guard_inv_def)
  have "guard_inv (reconcile_effect e st h (run evs))"
    using inv by (rule guard_inv_effect)
  then have flight': "inFlight (reconcile_effect e st h (run evs)) \<le> 1"
    by (simp add: guard_inv_def)
  have held: "0 < inFlight (run evs) \<longrightarrow> reconcile_effect e st h (run evs) = run evs"
  proof
    assume "0 < inFlight (run evs)"
    with flight have "inFlight (run evs) = 1" by simp
    with inv have "signingOut (run evs)" by (simp add: guard_inv_def)
    then show "reconcile_effect e st h (run evs) = run evs"
      by (simp add: reconcile_effect_def)
  qed
  have once: "stays_tokenless evs \<and> has_render evs \<longrightarrow> signOutCalls (run evs) = 1"
  proof
    assume a: "stays_tokenless evs \<and> has_render evs"
    then have "settled_once (run evs)" using tokenless_run [of evs] by simp
    then show "signOutCalls (run evs) = 1" by (simp add: settled_once_def)
  qed
  from one most flight flight' held once show ?thesis by blast
qed

theorem reconcile_effect_single_flight_witness:
  "\<not> signingOut mount
   \<and> signOutCalls (reconcile_effect (ApiError 401 ''Unauthorized'') Authenticated True mount) = 1
   \<and> 0 < inFlight (run [Render (Some \<lparr> accessToken = None \<rparr>) Authenticated])
   \<and> reconcile_effect (ApiError 401 ''Unauthorized'') Authenticated True
        (run [Render (Some \<lparr> accessToken = None \<rparr>) Authenticated])
     = run [Render (Some \<lparr> accessToken = None \<rparr>) Authenticated]
   \<and> stays_tokenless
        [FetchSettled (ApiError 500 ''Internal Server Error''),
         Render (Some \<lparr> accessToken = None \<rparr>) Authenticated,
         SignOutFulfilled,
         FetchSettled (ApiError 401 ''Unauthorized''),
         Render (Some \<lparr> accessToken = Some [] \<rparr>) Authenticated]
   \<and> has_render
        [FetchSettled (ApiError 500 ''Internal Server Error''),
         Render (Some \<lparr> accessToken = None \<rparr>) Authenticated,
         SignOutFulfilled,
         FetchSettled (ApiError 401 ''Unauthorized''),
         Render (Some \<lparr> accessToken = Some [] \<rparr>) Authenticated]
   \<and> signOutCalls (run
        [FetchSettled (ApiError 500 ''Internal Server Error''),
         Render (Some \<lparr> accessToken = None \<rparr>) Authenticated,
         SignOutFulfilled,
         FetchSettled (ApiError 401 ''Unauthorized''),
         Render (Some \<lparr> accessToken = Some [] \<rparr>) Authenticated]) = 1"
  using
    reconcile_effect_single_flight
      [of mount "ApiError 401 ''Unauthorized''" Authenticated True
          "[Render (Some \<lparr> accessToken = None \<rparr>) Authenticated]"]
    reconcile_effect_single_flight
      [of mount "ApiError 401 ''Unauthorized''" Authenticated True
          "[FetchSettled (ApiError 500 ''Internal Server Error''),
            Render (Some \<lparr> accessToken = None \<rparr>) Authenticated,
            SignOutFulfilled,
            FetchSettled (ApiError 401 ''Unauthorized''),
            Render (Some \<lparr> accessToken = Some [] \<rparr>) Authenticated]"]
  by (simp add: run_def mount_def hasToken_def userQuery_options_def Let_def error_dep_def
      reconcile_effect_def issue_signOut_def is_unauthorized_def stays_tokenless_def
      has_render_def)

section \<open>The profile query\<close>

text \<open>
  C4. The options that \<open>useAuth\<close> hands to the query layer enable the profile fetch exactly
  when the session status is \<open>Authenticated\<close> and the session carries a non-empty access
  token. For an authenticated session without a token the fetch is disabled, and
  \<open>retry\<close> is off for every session, so the query layer does not repeat a failed fetch.
\<close>

theorem userQuery_enabled_iff:
  "enabled (userQuery_options s st) =
     (st = Authenticated \<and> (\<exists>se t. s = Some se \<and> accessToken se = Some t \<and> t \<noteq> []))
   \<and> (st = Authenticated \<and> \<not> hasToken s \<longrightarrow> \<not> enabled (userQuery_options s st))
   \<and> \<not> retry (userQuery_options s st)"
proof -
  have tok: "hasToken s = (\<exists>se t. s = Some se \<and> accessToken se = Some t \<and> t \<noteq> [])"
  proof (cases s)
    case None
    then show ?thesis by (simp add: hasToken_def)
  next
    case (Some se)
    then show ?thesis by (cases "accessToken se") (simp_all add: hasToken_def)
  qed
  have en: "\<And>st'. enabled (userQuery_options s st') = (st' = Authenticated \<and> hasToken s)"
    by (simp add: userQuery_options_def)
  have re: "\<not> retry (userQuery_options s st)"
    by (simp add: userQuery_options_def)
  show ?thesis using tok re by (auto simp add: en)
qed

theorem userQuery_enabled_iff_witness:
  "\<not> hasToken (Some \<lparr> accessToken = None \<rparr>)
   \<and> \<not> enabled (userQuery_options (Some \<lparr> accessToken = None \<rparr>) Authenticated)
   \<and> enabled (userQuery_options (Some \<lparr> accessToken = Some ''tok'' \<rparr>) Authenticated)
   \<and> \<not> retry (userQuery_options (Some \<lparr> accessToken = Some ''tok'' \<rparr>) Authenticated)"
  using userQuery_enabled_iff [of "Some \<lparr> accessToken = None \<rparr>" Authenticated]
    userQuery_enabled_iff [of "Some \<lparr> accessToken = Some ''tok'' \<rparr>" Authenticated]
  by (simp add: hasToken_def)

section \<open>The invite page\<close>

text \<open>
  C5. When the join call is rejected, whatever the error, \<open>handleAccept\<close> performs no
  navigation (it performs nothing at all), the page's effect does not redirect an
  authenticated visitor who has a token, and with the mutation reporting that error the
  card shows the message that \<open>getErrorMessage\<close> gives for it: for an \<open>ApiError\<close> of status 404 the invalid or
  expired message, for 403 the different email message, for 409 exactly
  \<open>You are already in a family.\<close>, and for every other failure the generic message.
\<close>

theorem join_failure_message:
  "handleAccept (Inl e) = []
   \<and> InviteContent_effect (Some (c # cs)) Authenticated = []
   \<and> InviteContent (Some (c # cs)) Authenticated \<lparr> mutStatus = MutError, mutError = e \<rparr> =
       InviteCard (Some (getErrorMessage e)) False False
   \<and> getErrorMessage (ApiError 404 m) = ''This invite link is invalid or has expired.''
   \<and> getErrorMessage (ApiError 403 m) = ''This invite was sent to a different email address.''
   \<and> getErrorMessage (ApiError 409 m) = ''You are already in a family.''
   \<and> (\<not> (is_ApiError e \<and> http_status e \<in> {404, 403, 409}) \<longrightarrow>
        getErrorMessage e = ''Something went wrong. Please try again.'')"
  by (cases e)
    (simp_all add: handleAccept_def InviteContent_effect_def InviteContent_def
      getErrorMessage_def)

theorem join_failure_message_witness:
  "\<not> (is_ApiError (ApiError 500 ''Internal Server Error'')
        \<and> http_status (ApiError 500 ''Internal Server Error'') \<in> {404, 403, 409})
   \<and> getErrorMessage (ApiError 500 ''Internal Server Error'') =
       ''Something went wrong. Please try again.''
   \<and> handleAccept (Inl (ApiError 500 ''Internal Server Error'')) = []
   \<and> InviteContent (Some ''abc123'') Authenticated
       \<lparr> mutStatus = MutError, mutError = ApiError 500 ''Internal Server Error'' \<rparr> =
       InviteCard (Some ''Something went wrong. Please try again.'') False False"
  using join_failure_message
    [of "ApiError 500 ''Internal Server Error''" "CHR ''a''" "''bc123''"]
  by simp




text \<open>
  C7. With no token query parameter, the page's effect issues the redirect to
  \<open>/dashboard/family\<close> and \<open>InviteContent\<close> returns \<open>null\<close>, for every session status and
  every state of the join mutation.
\<close>

theorem no_token_redirects_to_family:
  "InviteContent_effect None st = [RouterReplace ''/dashboard/family'']
   \<and> InviteContent None st m = RenderNull"
  by (simp add: InviteContent_effect_def InviteContent_def)

text \<open>
  C10. \<open>getErrorMessage\<close> returns a non-empty string, one of its four messages, for every
  input. For a value that is not an \<open>ApiError\<close>, and for an \<open>ApiError\<close> whose status is
  none of 404, 403 and 409 (for example 401), it returns the generic message. It is a
  function from the error to a string and has no effect besides.
\<close>

theorem getErrorMessage_total:
  "getErrorMessage e \<noteq> []
   \<and> (\<not> is_ApiError e \<longrightarrow> getErrorMessage e = ''Something went wrong. Please try again.'')
   \<and> (is_ApiError e \<and> http_status e \<notin> {404, 403, 409} \<longrightarrow>
        getErrorMessage e = ''Something went wrong. Please try again.'')
   \<and> getErrorMessage (ApiError 401 m) = ''Something went wrong. Please try again.''"
  by (cases e) (simp_all add: getErrorMessage_def)

theorem getErrorMessage_total_witness:
  "\<not> is_ApiError (OtherError ''TypeError: Failed to fetch'')
   \<and> getErrorMessage (OtherError ''TypeError: Failed to fetch'') =
       ''Something went wrong. Please try again.''
   \<and> \<not> is_ApiError Null
   \<and> getErrorMessage Null = ''Something went wrong. Please try again.''
   \<and> is_ApiError (ApiError 401 ''Unauthorized'')
   \<and> http_status (ApiError 401 ''Unauthorized'') \<notin> {404, 403, 409}
   \<and> getErrorMessage (ApiError 401 ''Unauthorized'') =
       ''Something went wrong. Please try again.''"
  using getErrorMessage_total [of "OtherError ''TypeError: Failed to fetch''"]
    getErrorMessage_total [of Null]
    getErrorMessage_total [of "ApiError 401 ''Unauthorized''"]
  by simp

end
